theory Spec2Isabelle
  imports Complex_Main "HOL-Library.Stream"
begin

section \<open>The deployment risk calculator of Hands-On-JS-Actions.md\<close>

text \<open>
  The program is the function \<^verbatim>\<open>run\<close> of
  \<^verbatim>\<open>.github/actions/risk-calculator/index.js\<close>, printed in
  \<^verbatim>\<open>Hands-On-JS-Actions.md\<close> (lines 132-297), with the input declarations of its
  \<^verbatim>\<open>action.yml\<close> (lines 37-69).
\<close>

subsection \<open>JavaScript numbers\<close>

text \<open>
  A JavaScript number is modelled as \<^verbatim>\<open>NaN\<close>, \<^verbatim>\<open>Infinity\<close>,
  \<^verbatim>\<open>-Infinity\<close>, the negative zero \<^verbatim>\<open>-0\<close>, or an exact rational, where
  \<open>Fin 0\<close> is the positive zero \<^verbatim>\<open>+0\<close>. The operations follow the case tables of
  ECMAScript for these values; the rounding error of binary64 arithmetic is not modelled.
\<close>

datatype jsnum = NaN | PInf | NInf | NZero | Fin rat

text \<open>
  The sign bit, the two zeros, the two infinities, the finite numbers (as
  \<^verbatim>\<open>Number.isFinite\<close> has them), and the value of a finite number.
\<close>

fun signBit :: "jsnum \<Rightarrow> bool" where
  "signBit NInf = True"
| "signBit NZero = True"
| "signBit (Fin r) = (r < 0)"
| "signBit a = False"

fun isZero :: "jsnum \<Rightarrow> bool" where
  "isZero NZero = True"
| "isZero (Fin r) = (r = 0)"
| "isZero a = False"

fun isInfinite :: "jsnum \<Rightarrow> bool" where
  "isInfinite PInf = True"
| "isInfinite NInf = True"
| "isInfinite a = False"

definition isFinite :: "jsnum \<Rightarrow> bool" where
  "isFinite a = (a \<noteq> NaN \<and> \<not> isInfinite a)"

fun valueOf :: "jsnum \<Rightarrow> rat" where
  "valueOf (Fin r) = r"
| "valueOf a = 0"

definition signedZero :: "bool \<Rightarrow> jsnum" where
  "signedZero neg = (if neg then NZero else Fin 0)"

definition signedInfinity :: "bool \<Rightarrow> jsnum" where
  "signedInfinity neg = (if neg then NInf else PInf)"

text \<open>
  The operator \<^verbatim>\<open>/\<close>. The sign of a zero or infinite quotient is negative exactly
  when the signs of the operands differ: \<^verbatim>\<open>10 / 0\<close> is \<^verbatim>\<open>Infinity\<close> and
  \<^verbatim>\<open>10 / -0\<close> is \<^verbatim>\<open>-Infinity\<close>.
\<close>

definition js_div :: "jsnum \<Rightarrow> jsnum \<Rightarrow> jsnum" where
  "js_div a b =
     (if a = NaN \<or> b = NaN then NaN
      else if isInfinite a
      then (if isInfinite b then NaN else signedInfinity (signBit a \<noteq> signBit b))
      else if isInfinite b then signedZero (signBit a \<noteq> signBit b)
      else if isZero b
      then (if isZero a then NaN else signedInfinity (signBit a \<noteq> signBit b))
      else if isZero a then signedZero (signBit a \<noteq> signBit b)
      else Fin (valueOf a / valueOf b))"

text \<open>The operator \<^verbatim>\<open>*\<close>.\<close>

definition js_mul :: "jsnum \<Rightarrow> jsnum \<Rightarrow> jsnum" where
  "js_mul a b =
     (if a = NaN \<or> b = NaN then NaN
      else if isInfinite a
      then (if isZero b then NaN else signedInfinity (signBit a \<noteq> signBit b))
      else if isInfinite b
      then (if isZero a then NaN else signedInfinity (signBit a \<noteq> signBit b))
      else if isZero a \<or> isZero b then signedZero (signBit a \<noteq> signBit b)
      else Fin (valueOf a * valueOf b))"

text \<open>
  The operator \<^verbatim>\<open>+\<close> on numbers. A sum that is zero is \<^verbatim>\<open>+0\<close>, except
  \<^verbatim>\<open>-0 + -0\<close>.
\<close>

definition js_add :: "jsnum \<Rightarrow> jsnum \<Rightarrow> jsnum" where
  "js_add a b =
     (if a = NaN \<or> b = NaN then NaN
      else if isInfinite a then (if isInfinite b \<and> a \<noteq> b then NaN else a)
      else if isInfinite b then b
      else if a = NZero \<and> b = NZero then NZero
      else Fin (valueOf a + valueOf b))"

text \<open>
  The operator \<^verbatim>\<open><\<close>: false as soon as one side is \<^verbatim>\<open>NaN\<close>; the two zeros
  compare equal.
\<close>

fun js_lt :: "jsnum \<Rightarrow> jsnum \<Rightarrow> bool" where
  "js_lt NaN b = False"
| "js_lt a NaN = False"
| "js_lt PInf b = False"
| "js_lt a NInf = False"
| "js_lt NInf b = True"
| "js_lt a PInf = True"
| "js_lt a b = (valueOf a < valueOf b)"

text \<open>The operators \<^verbatim>\<open>>\<close> and \<^verbatim>\<open>>=\<close>.\<close>

definition js_gt :: "jsnum \<Rightarrow> jsnum \<Rightarrow> bool" where
  "js_gt a b = js_lt b a"

definition js_ge :: "jsnum \<Rightarrow> jsnum \<Rightarrow> bool" where
  "js_ge a b = (a \<noteq> NaN \<and> b \<noteq> NaN \<and> \<not> js_lt a b)"

text \<open>
  \<^verbatim>\<open>Math.min\<close> of two arguments: \<^verbatim>\<open>NaN\<close> as soon as one argument is, and
  \<^verbatim>\<open>-0\<close> is below \<^verbatim>\<open>+0\<close>.
\<close>

definition Math_min :: "jsnum \<Rightarrow> jsnum \<Rightarrow> jsnum" where
  "Math_min a b =
     (if a = NaN \<or> b = NaN then NaN
      else if js_lt b a then b
      else if js_lt a b then a
      else if b = NZero then b else a)"

text \<open>
  \<^verbatim>\<open>Math.round\<close>: the nearest integer, a half rounded towards \<^verbatim>\<open>+Infinity\<close>; a
  number below zero and not below -0.5 rounds to \<^verbatim>\<open>-0\<close>.
\<close>

fun Math_round :: "jsnum \<Rightarrow> jsnum" where
  "Math_round (Fin r) = (if r < 0 \<and> - (1 / 2) \<le> r then NZero else Fin (of_int \<lfloor>r + 1 / 2\<rfloor>))"
| "Math_round a = a"

text \<open>A number from an integer of the pull request payload.\<close>

definition num :: "int \<Rightarrow> jsnum" where
  "num i = Fin (of_int i)"

text \<open>
  \<^verbatim>\<open>Number.prototype.toString\<close>. The decimal digits are those of an integer of
  magnitude below \<^verbatim>\<open>1e21\<close>, which is what the program prints: every number it converts
  is a result of \<^verbatim>\<open>Math.round\<close>. Both zeros print as \<^verbatim>\<open>0\<close>.
\<close>

definition digitChar :: "nat \<Rightarrow> char" where
  "digitChar d = ''0123456789'' ! d"

fun showNat :: "nat \<Rightarrow> string" where
  "showNat n = (if n < 10 then [digitChar n] else showNat (n div 10) @ [digitChar (n mod 10)])"

declare showNat.simps [simp del]

fun toString :: "jsnum \<Rightarrow> string" where
  "toString NaN = ''NaN''"
| "toString PInf = ''Infinity''"
| "toString NInf = ''-Infinity''"
| "toString NZero = ''0''"
| "toString (Fin r) =
     (if r < 0 then ''-'' @ showNat (nat \<lfloor>- r\<rfloor>) else showNat (nat \<lfloor>r\<rfloor>))"

subsection \<open>Reading the inputs (lines 137-140)\<close>

definition isSpace :: "char \<Rightarrow> bool" where
  "isSpace c = (let n = (of_char c :: nat) in n = 32 \<or> (9 \<le> n \<and> n \<le> 13))"

definition isDigit :: "char \<Rightarrow> bool" where
  "isDigit c = (let n = (of_char c :: nat) in 48 \<le> n \<and> n \<le> 57)"

definition digitsValue :: "string \<Rightarrow> int" where
  "digitsValue ds = foldl (\<lambda>acc c. acc * 10 + (int (of_char c) - 48)) 0 ds"

text \<open>
  \<^verbatim>\<open>parseInt(s, 10)\<close>: leading white space is skipped, a sign is read, and the longest
  prefix of decimal digits is the value; when there is no digit the result is
  \<^verbatim>\<open>NaN\<close>, and a value of zero after a minus sign is \<^verbatim>\<open>-0\<close>. White space is the
  ASCII one.
\<close>

definition parseInt :: "string \<Rightarrow> jsnum" where
  "parseInt s =
     (let s1 = dropWhile isSpace s;
          neg = (case s1 of [] \<Rightarrow> False | c # _ \<Rightarrow> c = CHR ''-'');
          s2 = (case s1 of [] \<Rightarrow> []
                | c # cs \<Rightarrow> if c = CHR ''-'' \<or> c = CHR ''+'' then cs else s1);
          ds = takeWhile isDigit s2
      in if ds = [] then NaN
         else if neg then (if digitsValue ds = 0 then NZero else num (- digitsValue ds))
         else num (digitsValue ds))"

text \<open>\<^verbatim>\<open>String.prototype.split\<close> at one character, and \<^verbatim>\<open>trim\<close>.\<close>

fun splitStr :: "char \<Rightarrow> string \<Rightarrow> string list" where
  "splitStr sep [] = [[]]"
| "splitStr sep (c # cs) =
     (if c = sep then [] # splitStr sep cs
      else (case splitStr sep cs of [] \<Rightarrow> [[c]] | w # ws \<Rightarrow> (c # w) # ws))"

definition trim :: "string \<Rightarrow> string" where
  "trim s = rev (dropWhile isSpace (rev (dropWhile isSpace s)))"

text \<open>
  \<^verbatim>\<open>core.getInput('critical-paths').split(',').map(p => p.trim()).filter(Boolean)\<close>:
  the empty string is the only falsy string.
\<close>

definition parseCriticalPaths :: "string \<Rightarrow> string list" where
  "parseCriticalPaths s = filter (\<lambda>p. p \<noteq> []) (map trim (splitStr CHR '','' s))"

record ScoringConfig =
  filesThreshold :: jsnum
  linesThreshold :: jsnum
  criticalPaths :: "string list"

subsection \<open>The pull request statistics (lines 142-147)\<close>

text \<open>
  \<^verbatim>\<open>Math.random()\<close> reads the next value of a generator. The generator is a stream of
  the values it will return, each in \<open>[0, 1)\<close>; a call returns the head and leaves the
  tail.
\<close>

type_synonym rng = "rat stream"

definition Math_random :: "rng \<Rightarrow> rat \<times> rng" where
  "Math_random g = (shd g, stl g)"

definition unitDraws :: "rng \<Rightarrow> bool" where
  "unitDraws g = (\<forall>u \<in> sset g. 0 \<le> u \<and> u < 1)"

text \<open>
  \<^verbatim>\<open>github.context.payload.pull_request\<close>: absent when the workflow was not started
  by a pull request; each count is an integer of the payload, or absent.
\<close>

record pull_request =
  changed_files :: "int option"
  pr_additions :: "int option"
  pr_deletions :: "int option"

record ChangeMetrics =
  filesChanged :: int
  additions :: int
  deletions :: int
  totalLines :: int

text \<open>\<^verbatim>\<open>prContext?.field\<close>: undefined when the pull request is.\<close>

definition optChain :: "pull_request option \<Rightarrow> (pull_request \<Rightarrow> int option) \<Rightarrow> int option" where
  "optChain prContext field = (case prContext of None \<Rightarrow> None | Some pr \<Rightarrow> field pr)"

text \<open>
  \<^verbatim>\<open>v || Math.floor(Math.random() * width) + base\<close>: the right operand is evaluated,
  and the generator read, only when \<open>v\<close> is falsy, that is undefined or \<open>0\<close>.
\<close>

definition orRandom :: "int option \<Rightarrow> rat \<Rightarrow> int \<Rightarrow> rng \<Rightarrow> int \<times> rng" where
  "orRandom v width base g =
     (case v of
        Some n \<Rightarrow>
          if n \<noteq> 0 then (n, g)
          else (let (u, g') = Math_random g in (\<lfloor>u * width\<rfloor> + base, g'))
      | None \<Rightarrow> (let (u, g') = Math_random g in (\<lfloor>u * width\<rfloor> + base, g')))"

definition prStats :: "pull_request option \<Rightarrow> rng \<Rightarrow> ChangeMetrics \<times> rng" where
  "prStats prContext g =
     (let (fc, g1) = orRandom (optChain prContext changed_files) 30 1 g;
          (ad, g2) = orRandom (optChain prContext pr_additions) 400 50 g1;
          (de, g3) = orRandom (optChain prContext pr_deletions) 200 20 g2
      in (\<lparr>filesChanged = fc, additions = ad, deletions = de, totalLines = ad + de\<rparr>, g3))"

subsection \<open>The risk factors (lines 153-211)\<close>

text \<open>
  The \<^verbatim>\<open>value\<close> and \<^verbatim>\<open>threshold\<close> of a factor are numbers or strings. The field
  \<^verbatim>\<open>value\<close> is named \<open>fvalue\<close> here.
\<close>

datatype jsval = Num jsnum | Str string

record factor =
  name :: string
  fvalue :: jsval
  threshold :: jsval
  score :: jsnum
  impact :: string

definition impactOf :: "jsnum \<Rightarrow> rat \<Rightarrow> rat \<Rightarrow> string" where
  "impactOf x hi mid =
     (if js_gt x (Fin hi) then ''high'' else if js_gt x (Fin mid) then ''medium'' else ''low'')"

text \<open>Factor 1: number of files changed (lines 157-166).\<close>

definition filesFactor :: "ChangeMetrics \<Rightarrow> ScoringConfig \<Rightarrow> jsnum" where
  "filesFactor m cfg =
     Math_min (js_mul (js_div (num (filesChanged m)) (filesThreshold cfg)) (Fin 30)) (Fin 30)"

definition filesEntry :: "ChangeMetrics \<Rightarrow> ScoringConfig \<Rightarrow> factor" where
  "filesEntry m cfg =
     \<lparr>name = ''Files Changed'', fvalue = Num (num (filesChanged m)),
      threshold = Num (filesThreshold cfg), score = Math_round (filesFactor m cfg),
      impact = impactOf (filesFactor m cfg) 20 10\<rparr>"

text \<open>Factor 2: lines of code changed (lines 168-177).\<close>

definition linesFactor :: "ChangeMetrics \<Rightarrow> ScoringConfig \<Rightarrow> jsnum" where
  "linesFactor m cfg =
     Math_min (js_mul (js_div (num (totalLines m)) (linesThreshold cfg)) (Fin 35)) (Fin 35)"

definition linesEntry :: "ChangeMetrics \<Rightarrow> ScoringConfig \<Rightarrow> factor" where
  "linesEntry m cfg =
     \<lparr>name = ''Lines Changed'', fvalue = Num (num (totalLines m)),
      threshold = Num (linesThreshold cfg), score = Math_round (linesFactor m cfg),
      impact = impactOf (linesFactor m cfg) 25 15\<rparr>"

text \<open>
  Factor 3: critical paths touched, simulated (lines 179-198). The operator
  \<^verbatim>\<open>&&\<close> reads the generator only when some critical path is configured.
\<close>

definition touchesCritical :: "string list \<Rightarrow> rng \<Rightarrow> bool \<times> rng" where
  "touchesCritical cps g =
     (if 0 < length cps
      then (let (u, g') = Math_random g in (js_gt (Fin u) (Fin (6 / 10)), g'))
      else (False, g))"

definition criticalEntry :: "bool \<Rightarrow> factor" where
  "criticalEntry touches =
     (if touches
      then \<lparr>name = ''Critical Paths'', fvalue = Str ''Yes'', threshold = Str ''N/A'',
            score = Fin 25, impact = ''high''\<rparr>
      else \<lparr>name = ''Critical Paths'', fvalue = Str ''No'', threshold = Str ''N/A'',
            score = Fin 0, impact = ''none''\<rparr>)"

text \<open>Factor 4: ratio of deletions to additions (lines 200-211).\<close>

definition deletionRatio :: "ChangeMetrics \<Rightarrow> jsnum" where
  "deletionRatio m = js_div (num (deletions m)) (js_add (num (additions m)) (Fin 1))"

definition deletionEntry :: "ChangeMetrics \<Rightarrow> factor" where
  "deletionEntry m =
     \<lparr>name = ''High Deletion Ratio'',
      fvalue = Str (toString (Math_round (js_mul (deletionRatio m) (Fin 100))) @ ''%''),
      threshold = Str ''50%'', score = Fin 10, impact = ''medium''\<rparr>"

text \<open>
  The accumulation of \<^verbatim>\<open>riskScore\<close> and \<^verbatim>\<open>factors\<close>, in the order of the
  source; the result is the sum before rounding and capping, the factors, and the
  generator.
\<close>

definition riskFactors :: "ChangeMetrics \<Rightarrow> ScoringConfig \<Rightarrow> rng \<Rightarrow> (jsnum \<times> factor list) \<times> rng" where
  "riskFactors m cfg g =
     (let riskScore0 = Fin 0;
          factors0 = [];
          riskScore1 = js_add riskScore0 (filesFactor m cfg);
          factors1 = factors0 @ [filesEntry m cfg];
          riskScore2 = js_add riskScore1 (linesFactor m cfg);
          factors2 = factors1 @ [linesEntry m cfg];
          (touches, g') = touchesCritical (criticalPaths cfg) g;
          riskScore3 = (if touches then js_add riskScore2 (Fin 25) else riskScore2);
          factors3 = factors2 @ [criticalEntry touches];
          high = js_gt (deletionRatio m) (Fin (1 / 2));
          riskScore4 = (if high then js_add riskScore3 (Fin 10) else riskScore3);
          factors4 = (if high then factors3 @ [deletionEntry m] else factors3)
      in ((riskScore4, factors4), g'))"

subsection \<open>The risk level (lines 213-235)\<close>

text \<open>Cap at 100 (line 214).\<close>

definition capScore :: "jsnum \<Rightarrow> jsnum" where
  "capScore raw = Math_min (Math_round raw) (Fin 100)"

text \<open>The level, the recommendation and the approval, in this order (lines 217-235).\<close>

definition levelOf :: "jsnum \<Rightarrow> string \<times> string \<times> string" where
  "levelOf riskScore =
     (if js_ge riskScore (Fin 75)
      then (''critical'', ''Deploy during maintenance window with full team availability'',
            ''VP approval required'')
      else if js_ge riskScore (Fin 50)
      then (''high'', ''Deploy during low-traffic hours with rollback plan ready'',
            ''Senior engineer approval required'')
      else if js_ge riskScore (Fin 25)
      then (''medium'', ''Standard deployment process with monitoring'',
            ''Peer review required'')
      else (''low'', ''Safe to deploy anytime'', ''Standard review process''))"

subsection \<open>The analysis and the outputs (lines 237-290)\<close>

record Analysis =
  riskScore :: jsnum
  riskLevel :: string
  factors :: "factor list"
  metrics :: ChangeMetrics
  recommendation :: string
  approvalRequired :: string
  timestamp :: string

text \<open>
  The engine proper: from the metrics and the configuration to the analysis object
  (lines 153-249). \<open>now\<close> is the value of \<^verbatim>\<open>new Date().toISOString()\<close>.
\<close>

definition assess :: "ChangeMetrics \<Rightarrow> ScoringConfig \<Rightarrow> rng \<Rightarrow> string \<Rightarrow> Analysis \<times> rng" where
  "assess m cfg g now =
     (let ((raw, fs), g') = riskFactors m cfg g;
          capped = capScore raw;
          (level, rec, approval) = levelOf capped
      in (\<lparr>riskScore = capped, riskLevel = level, factors = fs, metrics = m,
           recommendation = rec, approvalRequired = approval, timestamp = now\<rparr>, g'))"

text \<open>
  The values that \<^verbatim>\<open>core.getInput\<close> returns for the three inputs of
  \<^verbatim>\<open>action.yml\<close>, and the outputs set by \<^verbatim>\<open>core.setOutput\<close>. The output
  \<^verbatim>\<open>analysis\<close> is kept as the object that \<^verbatim>\<open>JSON.stringify\<close> serialises; the
  log lines and the job summary repeat the same values and are left out. \<open>warning\<close>
  is the message of \<^verbatim>\<open>core.warning\<close>, when one is issued.
\<close>

record ActionInputs =
  files_changed_threshold :: string
  lines_changed_threshold :: string
  critical_paths :: string

record Outputs =
  risk_score :: string
  risk_level :: string
  recommendation_out :: string
  analysis :: Analysis
  warning :: "string option"

text \<open>
  \<open>Failed\<close> is the \<^verbatim>\<open>catch\<close> branch, which calls \<^verbatim>\<open>core.setFailed\<close>. No
  statement of the \<^verbatim>\<open>try\<close> block throws on the inputs modelled here
  (\<^verbatim>\<open>parseInt\<close> returns \<^verbatim>\<open>NaN\<close>, a division by zero returns an infinity or
  \<^verbatim>\<open>NaN\<close>), so that \<open>run\<close> has no branch that returns it.
\<close>

datatype outcome = isFailed: Failed (message: string) | isCompleted: Completed (outputs: Outputs)

text \<open>Get inputs (lines 137-140): nothing is checked.\<close>

definition getInputs :: "ActionInputs \<Rightarrow> ScoringConfig" where
  "getInputs inp =
     \<lparr>filesThreshold = parseInt (files_changed_threshold inp),
      linesThreshold = parseInt (lines_changed_threshold inp),
      criticalPaths = parseCriticalPaths (critical_paths inp)\<rparr>"

definition run :: "ActionInputs \<Rightarrow> pull_request option \<Rightarrow> rng \<Rightarrow> string \<Rightarrow> outcome" where
  "run inp prContext g now =
     (let cfg = getInputs inp;
          (m, g1) = prStats prContext g;
          (a, g2) = assess m cfg g1 now
      in Completed
           \<lparr>risk_score = toString (riskScore a), risk_level = riskLevel a,
            recommendation_out = recommendation a, analysis = a,
            warning =
              (if js_ge (riskScore a) (Fin 50)
               then Some (''High risk deployment detected ('' @ toString (riskScore a)
                          @ ''/100). Extra caution recommended.'')
               else None)\<rparr>)"

text \<open>
  The order low, medium, high, critical on the levels, as a rank. The source compares no
  levels; the rank serves to state that the level grows with the score.
\<close>

definition levelRank :: "string \<Rightarrow> nat" where
  "levelRank l =
     (if l = ''critical'' then 3 else if l = ''high'' then 2
      else if l = ''medium'' then 1 else 0)"

section \<open>Evaluation rules and auxiliary facts\<close>

lemmas num_defs = js_gt_def js_ge_def num_def
lemmas factor_defs = filesFactor_def linesFactor_def touchesCritical_def deletionRatio_def
  filesEntry_def linesEntry_def criticalEntry_def deletionEntry_def impactOf_def Math_random_def
lemmas engine_defs = riskFactors_def capScore_def levelOf_def assess_def
lemmas input_defs = parseInt_def isSpace_def isDigit_def digitsValue_def parseCriticalPaths_def
  trim_def getInputs_def prStats_def orRandom_def optChain_def
lemmas print_defs = showNat.simps digitChar_def

subsection \<open>Numbers\<close>

lemma floor_rat_numeral [simp]:
  "\<lfloor>numeral a / numeral b :: rat\<rfloor> = numeral a div numeral b"
  using floor_divide_of_int_eq [of "numeral a" "numeral b", where ?'a = rat] by simp

lemma floor_rat_neg_numeral [simp]:
  "\<lfloor>- (numeral a / numeral b) :: rat\<rfloor> = - numeral a div numeral b"
  using floor_divide_of_int_eq [of "- numeral a" "numeral b", where ?'a = rat] by simp

lemma Math_min_NaN [simp]: "Math_min NaN b = NaN" "Math_min a NaN = NaN"
  by (simp_all add: Math_min_def)

lemma js_div_NaN [simp]: "js_div a NaN = NaN" "js_div NaN b = NaN"
  by (simp_all add: js_div_def)

lemma js_mul_NaN [simp]: "js_mul a NaN = NaN" "js_mul NaN b = NaN"
  by (simp_all add: js_mul_def)

lemma js_add_NaN [simp]: "js_add a NaN = NaN" "js_add NaN b = NaN"
  by (simp_all add: js_add_def)

lemma js_add_eq_NaN:
  "a = NaN \<or> b = NaN \<Longrightarrow> js_add (js_add (js_add a b) c) d = NaN"
  by auto

text \<open>The operations on finite operands, and on the special values against a finite one.\<close>

lemma js_div_Fin [simp]:
  "js_div (Fin a) (Fin b) =
     (if b = 0 then (if a = 0 then NaN else if 0 < a then PInf else NInf)
      else if a = 0 then (if b < 0 then NZero else Fin 0)
      else Fin (a / b))"
  by (auto simp: js_div_def signedZero_def signedInfinity_def)

lemma js_div_NZero [simp]:
  "js_div (Fin a) NZero = (if a = 0 then NaN else if 0 < a then NInf else PInf)"
  by (auto simp: js_div_def signedZero_def signedInfinity_def)

lemma js_mul_Fin [simp]:
  "js_mul (Fin a) (Fin b) =
     (if a = 0 \<or> b = 0 then (if (a < 0) \<noteq> (b < 0) then NZero else Fin 0)
      else Fin (a * b))"
  by (auto simp: js_mul_def signedZero_def signedInfinity_def)

lemma js_mul_special [simp]:
  "js_mul PInf (Fin b) = (if b = 0 then NaN else if 0 < b then PInf else NInf)"
  "js_mul NInf (Fin b) = (if b = 0 then NaN else if 0 < b then NInf else PInf)"
  "js_mul NZero (Fin b) = (if b < 0 then Fin 0 else NZero)"
  by (auto simp: js_mul_def signedZero_def signedInfinity_def)

lemma js_add_Fin [simp]: "js_add (Fin a) (Fin b) = Fin (a + b)"
  by (simp add: js_add_def)

lemma js_add_special [simp]:
  "js_add PInf (Fin b) = PInf"
  "js_add NInf (Fin b) = NInf"
  "js_add NZero (Fin b) = Fin b"
  "js_add (Fin a) PInf = PInf"
  "js_add (Fin a) NInf = NInf"
  "js_add (Fin a) NZero = Fin a"
  by (simp_all add: js_add_def)

lemma Math_min_Fin [simp]:
  "Math_min (Fin a) (Fin b) = Fin (min a b)"
  "Math_min PInf (Fin b) = Fin b"
  "Math_min NInf (Fin b) = NInf"
  "Math_min NZero (Fin b) = (if b < 0 then Fin b else NZero)"
  by (auto simp: Math_min_def)

text \<open>
  The sum starts from \<^verbatim>\<open>0\<close>, which absorbs a negative zero; adding \<^verbatim>\<open>0\<close> for a
  factor that is left out changes nothing after that.
\<close>

lemma js_add_from_zero:
  "js_add (js_add (Fin 0) a) b = js_add (js_add a b) (Fin 0)"
  by (cases a; cases b) (simp_all add: js_add_def)

lemma js_add_zero_after:
  "js_add (js_add a (Fin c)) (Fin 0) = js_add a (Fin c)"
  by (cases a) (simp_all add: js_add_def)

lemma js_add_zero_before:
  "js_add (js_add a (Fin 0)) (Fin c) = js_add a (Fin c)"
  by (cases a) (simp_all add: js_add_def)

subsection \<open>The pull request statistics\<close>

lemma draw_range:
  fixes u :: rat and k :: int
  assumes "0 \<le> u" and "u < 1" and "0 < k"
  shows "b \<le> \<lfloor>u * of_int k\<rfloor> + b \<and> \<lfloor>u * of_int k\<rfloor> + b \<le> b + k - 1"
proof -
  have "0 \<le> u * of_int k" using assms by simp
  then have lo: "0 \<le> \<lfloor>u * of_int k\<rfloor>" by (simp add: zero_le_floor)
  have "u * of_int k < of_int k" using assms by simp
  then have "\<lfloor>u * of_int k\<rfloor> < k" by (simp add: floor_less_iff)
  with lo show ?thesis by simp
qed

lemma unitDraws_shd: "unitDraws g \<Longrightarrow> 0 \<le> shd g \<and> shd g < 1"
  by (simp add: unitDraws_def shd_sset)

lemma unitDraws_stl: "unitDraws g \<Longrightarrow> unitDraws (stl g)"
  by (auto simp: unitDraws_def dest: stl_sset)

text \<open>The total is the sum of the two line counts, whatever their origin (line 147).\<close>

lemma prStats_totalLines:
  "totalLines (fst (prStats prContext g))
     = additions (fst (prStats prContext g)) + deletions (fst (prStats prContext g))"
  by (simp add: prStats_def Let_def split: prod.splits)

text \<open>Without a pull request the three counts are drawn, each in its range.\<close>

lemma prStats_absent:
  assumes "unitDraws g"
  shows "1 \<le> filesChanged (fst (prStats None g)) \<and> filesChanged (fst (prStats None g)) \<le> 30
       \<and> 50 \<le> additions (fst (prStats None g)) \<and> additions (fst (prStats None g)) \<le> 449
       \<and> 20 \<le> deletions (fst (prStats None g)) \<and> deletions (fst (prStats None g)) \<le> 219"
proof -
  have g0: "0 \<le> shd g \<and> shd g < 1" using assms by (rule unitDraws_shd)
  have g1: "0 \<le> shd (stl g) \<and> shd (stl g) < 1"
    using assms by (intro unitDraws_shd unitDraws_stl)
  have g2: "0 \<le> shd (stl (stl g)) \<and> shd (stl (stl g)) < 1"
    using assms by (intro unitDraws_shd unitDraws_stl)
  have eq: "fst (prStats None g)
      = \<lparr>filesChanged = \<lfloor>shd g * 30\<rfloor> + 1, additions = \<lfloor>shd (stl g) * 400\<rfloor> + 50,
         deletions = \<lfloor>shd (stl (stl g)) * 200\<rfloor> + 20,
         totalLines = \<lfloor>shd (stl g) * 400\<rfloor> + 50 + (\<lfloor>shd (stl (stl g)) * 200\<rfloor> + 20)\<rparr>"
    by (simp add: prStats_def optChain_def orRandom_def Math_random_def)
  show ?thesis
    using draw_range [of "shd g" 30 1] draw_range [of "shd (stl g)" 400 50]
      draw_range [of "shd (stl (stl g))" 200 20] g0 g1 g2
    by (simp add: eq)
qed

text \<open>Three counts that are present and not zero are used as they are, with no draw.\<close>

lemma prStats_present:
  assumes "changed_files pr = Some fc" and "fc \<noteq> 0"
    and "pr_additions pr = Some ad" and "ad \<noteq> 0"
    and "pr_deletions pr = Some de" and "de \<noteq> 0"
  shows "prStats (Some pr) g
      = (\<lparr>filesChanged = fc, additions = ad, deletions = de, totalLines = ad + de\<rparr>, g)"
  using assms by (simp add: prStats_def optChain_def orRandom_def)

subsection \<open>The factors and the analysis\<close>

lemma entry_names [simp]:
  "name (filesEntry m cfg) = ''Files Changed''"
  "name (linesEntry m cfg) = ''Lines Changed''"
  "name (criticalEntry t) = ''Critical Paths''"
  "name (deletionEntry m) = ''High Deletion Ratio''"
  by (simp_all add: filesEntry_def linesEntry_def criticalEntry_def deletionEntry_def)

lemma touchesCritical_fst:
  "fst (touchesCritical cps g) = (cps \<noteq> [] \<and> 6 / 10 < shd g)"
  by (simp add: touchesCritical_def Math_random_def js_gt_def)

lemma riskFactors_raw:
  "fst (fst (riskFactors m cfg g)) =
     js_add (js_add (js_add (filesFactor m cfg) (linesFactor m cfg))
               (if fst (touchesCritical (criticalPaths cfg) g) then Fin 25 else Fin 0))
       (if js_gt (deletionRatio m) (Fin (1 / 2)) then Fin 10 else Fin 0)"
  by (simp add: riskFactors_def Let_def js_add_from_zero js_add_zero_after js_add_zero_before
        split: prod.splits)

lemma riskFactors_factors:
  "snd (fst (riskFactors m cfg g)) =
     [filesEntry m cfg, linesEntry m cfg,
      criticalEntry (fst (touchesCritical (criticalPaths cfg) g))]
     @ (if js_gt (deletionRatio m) (Fin (1 / 2)) then [deletionEntry m] else [])"
  by (simp add: riskFactors_def Let_def split: prod.splits)

lemma assess_riskScore:
  "riskScore (fst (assess m cfg g now)) = capScore (fst (fst (riskFactors m cfg g)))"
  by (simp add: assess_def Let_def split: prod.splits)

lemma assess_level:
  "riskLevel (fst (assess m cfg g now)) = fst (levelOf (riskScore (fst (assess m cfg g now))))"
  "recommendation (fst (assess m cfg g now)) =
     fst (snd (levelOf (riskScore (fst (assess m cfg g now)))))"
  "approvalRequired (fst (assess m cfg g now)) =
     snd (snd (levelOf (riskScore (fst (assess m cfg g now)))))"
  by (simp_all add: assess_def Let_def split: prod.splits)

lemma assess_factors:
  "factors (fst (assess m cfg g now)) = snd (fst (riskFactors m cfg g))"
  by (simp add: assess_def Let_def split: prod.splits)

lemma assess_same_draw:
  assumes "criticalPaths cfg = [] \<or> (6 / 10 < shd g1) = (6 / 10 < shd g2)"
  shows "riskScore (fst (assess m cfg g1 t1)) = riskScore (fst (assess m cfg g2 t2))
       \<and> riskLevel (fst (assess m cfg g1 t1)) = riskLevel (fst (assess m cfg g2 t2))
       \<and> factors (fst (assess m cfg g1 t1)) = factors (fst (assess m cfg g2 t2))"
proof -
  have touches: "fst (touchesCritical (criticalPaths cfg) g1)
      = fst (touchesCritical (criticalPaths cfg) g2)"
    using assms by (auto simp: touchesCritical_fst)
  have raw: "fst (riskFactors m cfg g1) = fst (riskFactors m cfg g2)"
    by (rule prod_eqI) (simp_all add: riskFactors_raw riskFactors_factors touches)
  then have "riskScore (fst (assess m cfg g1 t1)) = riskScore (fst (assess m cfg g2 t2))"
    by (simp add: assess_riskScore)
  then show ?thesis using raw by (simp add: assess_level assess_factors)
qed

lemma assess_metrics: "metrics (fst (assess m cfg g now)) = m"
  by (simp add: assess_def Let_def split: prod.splits)

lemma run_analysis:
  "analysis (outputs (run inp prContext g now))
     = fst (assess (fst (prStats prContext g)) (getInputs inp) (snd (prStats prContext g)) now)"
  by (simp add: run_def Let_def split: prod.splits)

lemma run_outputs:
  "isCompleted (run inp prContext g now)"
  "risk_score (outputs (run inp prContext g now))
     = toString (riskScore (analysis (outputs (run inp prContext g now))))"
  "risk_level (outputs (run inp prContext g now))
     = riskLevel (analysis (outputs (run inp prContext g now)))"
  "recommendation_out (outputs (run inp prContext g now))
     = recommendation (analysis (outputs (run inp prContext g now)))"
  by (simp_all add: run_def Let_def split: prod.splits)

text \<open>
  The whole run on a pull request whose three counts are present and not zero: the
  statistics read no draw, and two runs agree as soon as their critical path draws do.
\<close>

lemma run_same_draw:
  assumes "changed_files pr = Some fc" and "fc \<noteq> 0"
    and "pr_additions pr = Some ad" and "ad \<noteq> 0"
    and "pr_deletions pr = Some de" and "de \<noteq> 0"
    and "criticalPaths (getInputs inp) = [] \<or> (6 / 10 < shd g1) = (6 / 10 < shd g2)"
  shows "risk_score (outputs (run inp (Some pr) g1 t1))
           = risk_score (outputs (run inp (Some pr) g2 t2))
       \<and> risk_level (outputs (run inp (Some pr) g1 t1))
           = risk_level (outputs (run inp (Some pr) g2 t2))
       \<and> factors (analysis (outputs (run inp (Some pr) g1 t1)))
           = factors (analysis (outputs (run inp (Some pr) g2 t2)))"
proof -
  have st: "prStats (Some pr) g
      = (\<lparr>filesChanged = fc, additions = ad, deletions = de, totalLines = ad + de\<rparr>, g)" for g
    using assms(1-6) by (rule prStats_present)
  let ?m = "\<lparr>filesChanged = fc, additions = ad, deletions = de, totalLines = ad + de\<rparr>"
  have same: "riskScore (fst (assess ?m (getInputs inp) g1 t1))
        = riskScore (fst (assess ?m (getInputs inp) g2 t2))
      \<and> riskLevel (fst (assess ?m (getInputs inp) g1 t1))
        = riskLevel (fst (assess ?m (getInputs inp) g2 t2))
      \<and> factors (fst (assess ?m (getInputs inp) g1 t1))
        = factors (fst (assess ?m (getInputs inp) g2 t2))"
    using assms(7) by (rule assess_same_draw)
  then show ?thesis
    by (simp add: run_outputs run_analysis st)
qed

lemma filesFactor_range:
  assumes "0 \<le> filesChanged m" and "filesThreshold cfg = Fin ft" and "0 < ft"
  shows "\<exists>x. filesFactor m cfg = Fin x \<and> 0 \<le> x \<and> x \<le> 30"
  using assms by (simp add: filesFactor_def num_defs)

lemma linesFactor_range:
  assumes "0 \<le> totalLines m" and "linesThreshold cfg = Fin lt" and "0 < lt"
  shows "\<exists>y. linesFactor m cfg = Fin y \<and> 0 \<le> y \<and> y \<le> 35"
  using assms by (simp add: linesFactor_def num_defs)

lemma capScore_range:
  assumes "0 \<le> r" and "r \<le> 100"
  shows "\<exists>n. capScore (Fin r) = num n \<and> 0 \<le> n \<and> n \<le> 100"
proof -
  have lo: "0 \<le> \<lfloor>r + 1 / 2\<rfloor>" using assms by (simp add: zero_le_floor)
  have hi: "\<lfloor>r + 1 / 2\<rfloor> \<le> 100" using assms by (simp add: floor_le_iff)
  have "capScore (Fin r) = num \<lfloor>r + 1 / 2\<rfloor>"
    using hi assms(1) by (simp add: capScore_def num_defs)
  with lo hi show ?thesis by blast
qed

lemma levelOf_mono:
  "js_ge a b \<Longrightarrow> levelRank (fst (levelOf b)) \<le> levelRank (fst (levelOf a))"
  by (cases a; cases b) (auto simp: levelOf_def js_ge_def levelRank_def)

lemma levelOf_total:
  "fst (levelOf a) \<in> {''low'', ''medium'', ''high'', ''critical''}"
  by (simp add: levelOf_def)

subsection \<open>The scenario of 40 files and 600 additions, from the payload\<close>

text \<open>
  When the scenario comes as a pull request payload, its \<open>0\<close> deletions are falsy and a
  count from 20 to 219 is drawn in their place. The lines contribution stays capped and
  the ratio stays below one half, so that the outputs are those of the scenario.
\<close>

lemma scenario_stats:
  assumes "unitDraws g"
  shows "\<exists>d. 20 \<le> d \<and> d \<le> 219
    \<and> prStats (Some \<lparr>changed_files = Some 40, pr_additions = Some 600, pr_deletions = Some 0\<rparr>) g
      = (\<lparr>filesChanged = 40, additions = 600, deletions = d, totalLines = 600 + d\<rparr>, stl g)"
proof -
  have "20 \<le> \<lfloor>shd g * 200\<rfloor> + 20 \<and> \<lfloor>shd g * 200\<rfloor> + 20 \<le> 219"
    using draw_range [of "shd g" 200 20] unitDraws_shd [OF assms] by simp
  then show ?thesis
    by (simp add: prStats_def optChain_def orRandom_def Math_random_def)
qed

lemma scenario_assess:
  fixes d :: int
  assumes "20 \<le> d" and "d \<le> 219"
  shows "riskScore (fst (assess
        \<lparr>filesChanged = 40, additions = 600, deletions = d, totalLines = 600 + d\<rparr>
        \<lparr>filesThreshold = num 20, linesThreshold = num 500, criticalPaths = []\<rparr> g now)) = Fin 65"
proof -
  let ?m = "\<lparr>filesChanged = 40, additions = 600, deletions = d, totalLines = 600 + d\<rparr>"
  let ?cfg = "\<lparr>filesThreshold = num 20, linesThreshold = num 500, criticalPaths = []\<rparr>"
  have ff: "filesFactor ?m ?cfg = Fin 30"
    by (simp add: filesFactor_def num_defs)
  have "(35::rat) \<le> (600 + of_int d) * 35 / 500" using assms by simp
  then have lf: "linesFactor ?m ?cfg = Fin 35"
    by (simp add: linesFactor_def num_defs)
  have "\<not> 1 / 2 < (of_int d / 601 :: rat)" using assms by simp
  then have dr: "\<not> js_gt (deletionRatio ?m) (Fin (1 / 2))"
    by (simp add: deletionRatio_def num_defs)
  have tc: "\<not> fst (touchesCritical (criticalPaths ?cfg) g)"
    by (simp add: touchesCritical_fst)
  have raw: "fst (fst (riskFactors ?m ?cfg g)) = Fin 65"
    unfolding riskFactors_raw using ff lf dr tc by simp
  have cap: "capScore (Fin 65) = Fin 65"
    by (simp add: capScore_def num_defs)
  show ?thesis
    by (simp add: assess_riskScore raw cap)
qed

lemma scenario_run:
  assumes "unitDraws g"
  shows "risk_score (outputs (run
        \<lparr>files_changed_threshold = ''20'', lines_changed_threshold = ''500'',
         critical_paths = ''''\<rparr>
        (Some \<lparr>changed_files = Some 40, pr_additions = Some 600, pr_deletions = Some 0\<rparr>)
        g now)) = ''65''
   \<and> risk_level (outputs (run
        \<lparr>files_changed_threshold = ''20'', lines_changed_threshold = ''500'',
         critical_paths = ''''\<rparr>
        (Some \<lparr>changed_files = Some 40, pr_additions = Some 600, pr_deletions = Some 0\<rparr>)
        g now)) = ''high''"
proof -
  let ?inp = "\<lparr>files_changed_threshold = ''20'', lines_changed_threshold = ''500'',
         critical_paths = ''''\<rparr>"
  let ?cfg = "\<lparr>filesThreshold = num 20, linesThreshold = num 500, criticalPaths = []\<rparr>"
  obtain d where d: "20 \<le> d" "d \<le> 219"
    and st: "prStats (Some \<lparr>changed_files = Some 40, pr_additions = Some 600,
        pr_deletions = Some 0\<rparr>) g
      = (\<lparr>filesChanged = 40, additions = 600, deletions = d, totalLines = 600 + d\<rparr>, stl g)"
    using scenario_stats [OF assms] by blast
  have cfg: "getInputs ?inp = ?cfg"
    by (simp add: input_defs)
  have sc: "riskScore (analysis (outputs (run ?inp (Some \<lparr>changed_files = Some 40,
      pr_additions = Some 600, pr_deletions = Some 0\<rparr>) g now))) = Fin 65"
    using scenario_assess [OF d, of "stl g" now] by (simp add: run_analysis st cfg)
  have "toString (Fin 65) = ''65''" by (simp add: print_defs)
  moreover have "fst (levelOf (Fin 65)) = ''high''" by (simp add: levelOf_def js_ge_def)
  ultimately show ?thesis
    using sc by (simp add: run_outputs run_analysis assess_level)
qed

subsection \<open>Two draws on different sides of 0.6\<close>

lemma valueOf_Math_min: "0 \<le> c \<Longrightarrow> valueOf (Math_min a (Fin c)) \<le> c"
  by (cases a) (auto simp: Math_min_def)

lemma finite_sum:
  assumes "isFinite a" and "isFinite b"
  shows "js_add (js_add (js_add a b) (Fin c)) (Fin d) = Fin (valueOf a + valueOf b + c + d)"
  using assms by (cases a; cases b) (simp_all add: isFinite_def js_add_def)

lemma capScore_Fin:
  assumes "\<lfloor>q + 1 / 2\<rfloor> \<le> 100"
  shows "capScore (Fin q)
      = (if q < 0 \<and> - (1 / 2) \<le> q then NZero else Fin (of_int \<lfloor>q + 1 / 2\<rfloor>))"
  using assms by (simp add: capScore_def)

lemma capScore_shift:
  assumes "r \<le> 75"
  shows "capScore (Fin (r + 25)) \<noteq> capScore (Fin r)"
proof -
  define k where "k = \<lfloor>r + 1 / 2\<rfloor>"
  define k' where "k' = \<lfloor>r + 25 + 1 / 2\<rfloor>"
  have shift: "k' = k + 25"
    unfolding k_def k'_def by linarith
  have "k \<le> 75"
    unfolding k_def using assms by linarith
  then have le: "k \<le> 100" and le': "k' \<le> 100"
    using shift by simp_all
  have lower: "capScore (Fin r) = (if r < 0 \<and> - (1 / 2) \<le> r then NZero else Fin (of_int k))"
    using capScore_Fin [of r] le unfolding k_def by blast
  have upper: "capScore (Fin (r + 25))
      = (if r + 25 < 0 \<and> - (1 / 2) \<le> r + 25 then NZero else Fin (of_int k'))"
    using capScore_Fin [of "r + 25"] le' unfolding k'_def by blast
  show ?thesis
    unfolding lower upper shift by auto
qed

lemma assess_other_draw:
  assumes "criticalPaths cfg \<noteq> []" and "6 / 10 < shd g1" and "\<not> 6 / 10 < shd g2"
  shows "factors (fst (assess m cfg g1 t1)) \<noteq> factors (fst (assess m cfg g2 t2))"
    and "isFinite (filesFactor m cfg) \<Longrightarrow> isFinite (linesFactor m cfg) \<Longrightarrow>
         riskScore (fst (assess m cfg g1 t1)) \<noteq> riskScore (fst (assess m cfg g2 t2))"
proof -
  have t1: "fst (touchesCritical (criticalPaths cfg) g1)"
    and t2: "\<not> fst (touchesCritical (criticalPaths cfg) g2)"
    using assms by (simp_all add: touchesCritical_fst)
  have "criticalEntry True \<noteq> criticalEntry False"
    by (simp add: criticalEntry_def)
  then show "factors (fst (assess m cfg g1 t1)) \<noteq> factors (fst (assess m cfg g2 t2))"
    by (simp add: assess_factors riskFactors_factors t1 t2)
  assume ff: "isFinite (filesFactor m cfg)" and lf: "isFinite (linesFactor m cfg)"
  define d :: rat where "d = (if js_gt (deletionRatio m) (Fin (1 / 2)) then 10 else 0)"
  define r where "r = valueOf (filesFactor m cfg) + valueOf (linesFactor m cfg) + 0 + d"
  have "valueOf (filesFactor m cfg) \<le> 30"
    unfolding filesFactor_def by (rule valueOf_Math_min) simp
  moreover have "valueOf (linesFactor m cfg) \<le> 35"
    unfolding linesFactor_def by (rule valueOf_Math_min) simp
  ultimately have le: "r \<le> 75" by (simp add: r_def d_def)
  have dF: "(if js_gt (deletionRatio m) (Fin (1 / 2)) then Fin 10 else Fin 0) = Fin d"
    by (simp add: d_def)
  have "fst (fst (riskFactors m cfg g1))
      = Fin (valueOf (filesFactor m cfg) + valueOf (linesFactor m cfg) + 25 + d)"
    by (simp only: riskFactors_raw dF t1 if_True finite_sum [OF ff lf])
  then have r1: "fst (fst (riskFactors m cfg g1)) = Fin (r + 25)"
    by (simp add: r_def)
  have r2: "fst (fst (riskFactors m cfg g2)) = Fin r"
    by (simp only: riskFactors_raw dF t2 if_False finite_sum [OF ff lf] r_def)
  show "riskScore (fst (assess m cfg g1 t1)) \<noteq> riskScore (fst (assess m cfg g2 t2))"
    using capScore_shift [OF le] by (simp add: assess_riskScore r1 r2)
qed

subsection \<open>Thresholds that are not positive\<close>





section \<open>The claims\<close>

subsection \<open>C1: the level thresholds\<close>

text \<open>
  Claim C1. For every integer score, those from 0 to 100 among them, the classifier gives
  one level, by inclusive lower bounds tried from the highest: from 75 on it is critical,
  from 50 to 74 high, from 25 to 49 medium, below 25 low, each with its recommendation and
  its approval.
\<close>

theorem classifier_levels:
  fixes s :: int
  shows "(75 \<le> s \<longrightarrow> levelOf (num s) =
            (''critical'', ''Deploy during maintenance window with full team availability'',
             ''VP approval required''))
       \<and> (50 \<le> s \<and> s < 75 \<longrightarrow> levelOf (num s) =
            (''high'', ''Deploy during low-traffic hours with rollback plan ready'',
             ''Senior engineer approval required''))
       \<and> (25 \<le> s \<and> s < 50 \<longrightarrow> levelOf (num s) =
            (''medium'', ''Standard deployment process with monitoring'',
             ''Peer review required''))
       \<and> (s < 25 \<longrightarrow> levelOf (num s) =
            (''low'', ''Safe to deploy anytime'', ''Standard review process''))"
  by (simp add: levelOf_def num_defs)

text \<open>The four lower ends of the ranges: 75, 50, 25 and, below the last bound, 24.\<close>

theorem classifier_levels_witness:
  "levelOf (num 75) =
     (''critical'', ''Deploy during maintenance window with full team availability'',
      ''VP approval required'')
   \<and> levelOf (num 50) =
     (''high'', ''Deploy during low-traffic hours with rollback plan ready'',
      ''Senior engineer approval required'')
   \<and> levelOf (num 25) =
     (''medium'', ''Standard deployment process with monitoring'', ''Peer review required'')
   \<and> levelOf (num 24) = (''low'', ''Safe to deploy anytime'', ''Standard review process'')"
  using classifier_levels [of 75] classifier_levels [of 50] classifier_levels [of 25]
    classifier_levels [of 24]
  by simp

subsection \<open>C2: the score is an integer from 0 to 100\<close>

text \<open>
  Claim C2. For metrics with non-negative counts and positive thresholds, the files
  contribution lies between 0 and its weight 30, the lines contribution between 0 and its
  weight 35, the critical paths contribution is 0 or 25, the deletion ratio contribution
  is 0 or 10, the sum before capping is the sum of the four, and the final score is an
  integer from 0 to 100; the four weights add up to 100, which the cap leaves as it is.
  Only the counts that are divided, \<open>filesChanged\<close> and \<open>totalLines\<close>, need to be
  non-negative.
\<close>

theorem score_bounded:
  assumes "0 \<le> filesChanged m" and "0 \<le> totalLines m"
    and "filesThreshold cfg = Fin ft" and "0 < ft"
    and "linesThreshold cfg = Fin lt" and "0 < lt"
  shows "\<exists>x y c d n.
      filesFactor m cfg = Fin x \<and> 0 \<le> x \<and> x \<le> 30
    \<and> linesFactor m cfg = Fin y \<and> 0 \<le> y \<and> y \<le> 35
    \<and> c = (if fst (touchesCritical (criticalPaths cfg) g) then 25 else 0)
    \<and> d = (if js_gt (deletionRatio m) (Fin (1 / 2)) then 10 else 0)
    \<and> fst (fst (riskFactors m cfg g)) = Fin (x + y + c + d)
    \<and> riskScore (fst (assess m cfg g now)) = num n \<and> 0 \<le> n \<and> n \<le> 100
    \<and> capScore (Fin (30 + 35 + 25 + 10)) = num 100"
proof -
  obtain x where x: "filesFactor m cfg = Fin x" "0 \<le> x" "x \<le> 30"
    using filesFactor_range [OF assms(1) assms(3) assms(4)] by blast
  obtain y where y: "linesFactor m cfg = Fin y" "0 \<le> y" "y \<le> 35"
    using linesFactor_range [OF assms(2) assms(5) assms(6)] by blast
  define c :: rat where "c = (if fst (touchesCritical (criticalPaths cfg) g) then 25 else 0)"
  define d :: rat where "d = (if js_gt (deletionRatio m) (Fin (1 / 2)) then 10 else 0)"
  have raw: "fst (fst (riskFactors m cfg g)) = Fin (x + y + c + d)"
    by (simp add: riskFactors_raw x(1) y(1) c_def d_def)
  have "0 \<le> x + y + c + d" and "x + y + c + d \<le> 100"
    using x(2,3) y(2,3) by (simp_all add: c_def d_def)
  then obtain n where n: "capScore (Fin (x + y + c + d)) = num n" "0 \<le> n" "n \<le> 100"
    using capScore_range by blast
  have final: "riskScore (fst (assess m cfg g now)) = num n"
    by (simp add: assess_riskScore raw n(1))
  have top: "capScore (Fin (30 + 35 + 25 + 10)) = num 100"
    by (simp add: capScore_def num_defs)
  show ?thesis
    using x y raw final n(2,3) top c_def d_def by blast
qed

text \<open>
  All four contributions at their weights: 20 files against 20, 500 lines against 500, a
  draw of 0.9 with a critical path configured, 490 deletions against 10 additions. The
  score is 100.
\<close>

theorem score_bounded_witness:
  "0 \<le> filesChanged \<lparr>filesChanged = 20, additions = 10, deletions = 490, totalLines = 500\<rparr>
 \<and> 0 \<le> totalLines \<lparr>filesChanged = 20, additions = 10, deletions = 490, totalLines = 500\<rparr>
 \<and> filesThreshold \<lparr>filesThreshold = Fin 20, linesThreshold = Fin 500,
      criticalPaths = [''src/payment'']\<rparr> = Fin 20
 \<and> (0::rat) < 20
 \<and> linesThreshold \<lparr>filesThreshold = Fin 20, linesThreshold = Fin 500,
      criticalPaths = [''src/payment'']\<rparr> = Fin 500
 \<and> (0::rat) < 500
 \<and> (\<exists>n. riskScore (fst (assess
        \<lparr>filesChanged = 20, additions = 10, deletions = 490, totalLines = 500\<rparr>
        \<lparr>filesThreshold = Fin 20, linesThreshold = Fin 500, criticalPaths = [''src/payment'']\<rparr>
        (sconst (9 / 10)) ''t'')) = num n \<and> 0 \<le> n \<and> n \<le> 100)
 \<and> riskScore (fst (assess
        \<lparr>filesChanged = 20, additions = 10, deletions = 490, totalLines = 500\<rparr>
        \<lparr>filesThreshold = Fin 20, linesThreshold = Fin 500, criticalPaths = [''src/payment'']\<rparr>
        (sconst (9 / 10)) ''t'')) = Fin 100"
proof -
  let ?m = "\<lparr>filesChanged = 20, additions = 10, deletions = 490, totalLines = 500\<rparr>"
  let ?cfg = "\<lparr>filesThreshold = Fin 20, linesThreshold = Fin 500,
      criticalPaths = [''src/payment'']\<rparr>"
  have h1: "0 \<le> filesChanged ?m" and h2: "0 \<le> totalLines ?m" by simp_all
  have h3: "filesThreshold ?cfg = Fin 20" and h4: "(0::rat) < 20"
    and h5: "linesThreshold ?cfg = Fin 500" and h6: "(0::rat) < 500" by simp_all
  have bound: "\<exists>n. riskScore (fst (assess ?m ?cfg (sconst (9 / 10)) ''t'')) = num n
      \<and> 0 \<le> n \<and> n \<le> 100"
    using score_bounded [OF h1 h2 h3 h4 h5 h6, of "sconst (9 / 10)" "''t''"] by blast
  have top: "riskScore (fst (assess ?m ?cfg (sconst (9 / 10)) ''t'')) = Fin 100"
    by (simp add: engine_defs factor_defs num_defs)
  show ?thesis using h1 h2 h3 h4 h5 h6 bound top by blast
qed

subsection \<open>C3: the critical paths factor\<close>

text \<open>
  Claim C3, as it is stated, fails: the claim has the Critical Paths factor in the list
  only when some critical path is configured. With no critical path configured the
  \<^verbatim>\<open>else\<close> branch of line 190 still records the factor.
\<close>

theorem critical_paths_claim_counterexample:
  "criticalPaths \<lparr>filesThreshold = num 20, linesThreshold = num 500, criticalPaths = []\<rparr> = []
   \<and> ''Critical Paths'' \<in> set (map name (factors (fst (assess
        \<lparr>filesChanged = 3, additions = 10, deletions = 2, totalLines = 12\<rparr>
        \<lparr>filesThreshold = num 20, linesThreshold = num 500, criticalPaths = []\<rparr>
        (sconst (1 / 2)) ''t''))))"
  by (simp add: assess_factors riskFactors_factors)

text \<open>
  Claim C3, amended. For every input the Critical Paths factor is in the list exactly
  once, in third place, whether or not a critical path is configured. Its score is 25
  with the impact high when some critical path is configured and the simulated draw of
  line 180 is above 0.6, and 0 with the impact none otherwise. The changed file paths are
  not read.
\<close>

theorem critical_paths_simulated:
  "filter (\<lambda>f. name f = ''Critical Paths'') (factors (fst (assess m cfg g now)))
     = [criticalEntry (criticalPaths cfg \<noteq> [] \<and> 6 / 10 < shd g)]
   \<and> factors (fst (assess m cfg g now)) ! 2
     = criticalEntry (criticalPaths cfg \<noteq> [] \<and> 6 / 10 < shd g)
   \<and> score (criticalEntry True) = Fin 25 \<and> impact (criticalEntry True) = ''high''
   \<and> score (criticalEntry False) = Fin 0 \<and> impact (criticalEntry False) = ''none''"
  by (simp add: assess_factors riskFactors_factors touchesCritical_fst criticalEntry_def)

text \<open>
  A critical path with a draw of 0.9, the same with a draw of 0.5, and no critical path
  with a draw of 0.9.
\<close>

theorem critical_paths_simulated_witness:
  "filter (\<lambda>f. name f = ''Critical Paths'') (factors (fst (assess
        \<lparr>filesChanged = 3, additions = 10, deletions = 2, totalLines = 12\<rparr>
        \<lparr>filesThreshold = num 20, linesThreshold = num 500, criticalPaths = [''src/payment'']\<rparr>
        (sconst (9 / 10)) ''t'')))
     = [\<lparr>name = ''Critical Paths'', fvalue = Str ''Yes'', threshold = Str ''N/A'',
         score = Fin 25, impact = ''high''\<rparr>]
   \<and> filter (\<lambda>f. name f = ''Critical Paths'') (factors (fst (assess
        \<lparr>filesChanged = 3, additions = 10, deletions = 2, totalLines = 12\<rparr>
        \<lparr>filesThreshold = num 20, linesThreshold = num 500, criticalPaths = [''src/payment'']\<rparr>
        (sconst (1 / 2)) ''t'')))
     = [\<lparr>name = ''Critical Paths'', fvalue = Str ''No'', threshold = Str ''N/A'',
         score = Fin 0, impact = ''none''\<rparr>]
   \<and> filter (\<lambda>f. name f = ''Critical Paths'') (factors (fst (assess
        \<lparr>filesChanged = 3, additions = 10, deletions = 2, totalLines = 12\<rparr>
        \<lparr>filesThreshold = num 20, linesThreshold = num 500, criticalPaths = []\<rparr>
        (sconst (9 / 10)) ''t'')))
     = [\<lparr>name = ''Critical Paths'', fvalue = Str ''No'', threshold = Str ''N/A'',
         score = Fin 0, impact = ''none''\<rparr>]"
  using
    critical_paths_simulated [of
      "\<lparr>filesChanged = 3, additions = 10, deletions = 2, totalLines = 12\<rparr>"
      "\<lparr>filesThreshold = num 20, linesThreshold = num 500, criticalPaths = [''src/payment'']\<rparr>"
      "sconst (9 / 10)" "''t''"]
    critical_paths_simulated [of
      "\<lparr>filesChanged = 3, additions = 10, deletions = 2, totalLines = 12\<rparr>"
      "\<lparr>filesThreshold = num 20, linesThreshold = num 500, criticalPaths = [''src/payment'']\<rparr>"
      "sconst (1 / 2)" "''t''"]
    critical_paths_simulated [of
      "\<lparr>filesChanged = 3, additions = 10, deletions = 2, totalLines = 12\<rparr>"
      "\<lparr>filesThreshold = num 20, linesThreshold = num 500, criticalPaths = []\<rparr>"
      "sconst (9 / 10)" "''t''"]
  by (simp add: criticalEntry_def)

subsection \<open>C4: two invocations on the same input\<close>

text \<open>
  Claim C4, as it is stated, fails: with the same metrics and the same configuration, one
  critical path configured, a draw of 0.5 gives the score 5 and the level low, and a draw
  of 0.9 gives the score 30 and the level medium.
\<close>

theorem idempotence_claim_counterexample:
  "riskScore (fst (assess
        \<lparr>filesChanged = 3, additions = 10, deletions = 2, totalLines = 12\<rparr>
        \<lparr>filesThreshold = num 20, linesThreshold = num 500, criticalPaths = [''src/payment'']\<rparr>
        (sconst (1 / 2)) ''t'')) = Fin 5
   \<and> riskScore (fst (assess
        \<lparr>filesChanged = 3, additions = 10, deletions = 2, totalLines = 12\<rparr>
        \<lparr>filesThreshold = num 20, linesThreshold = num 500, criticalPaths = [''src/payment'']\<rparr>
        (sconst (9 / 10)) ''t'')) = Fin 30
   \<and> riskLevel (fst (assess
        \<lparr>filesChanged = 3, additions = 10, deletions = 2, totalLines = 12\<rparr>
        \<lparr>filesThreshold = num 20, linesThreshold = num 500, criticalPaths = [''src/payment'']\<rparr>
        (sconst (1 / 2)) ''t'')) = ''low''
   \<and> riskLevel (fst (assess
        \<lparr>filesChanged = 3, additions = 10, deletions = 2, totalLines = 12\<rparr>
        \<lparr>filesThreshold = num 20, linesThreshold = num 500, criticalPaths = [''src/payment'']\<rparr>
        (sconst (9 / 10)) ''t'')) = ''medium''"
  by (simp add: engine_defs factor_defs num_defs)

text \<open>
  Claim C4, amended. The metrics are the record that the scorer receives, that is after
  the fallback of lines 144-147. Two invocations on the same metrics and the same
  configuration give the same score, the same level and the same factors when no critical
  path is configured, and also when their simulated draws of line 180 fall on the same
  side of 0.6. When a critical path is configured and the two draws fall on different
  sides of 0.6, the factors differ, and so do the scores whenever the files and the lines
  contributions are finite numbers (neither \<^verbatim>\<open>NaN\<close> nor an infinity). The whole run on a pull request whose three counts
  are present and not zero gives the same score, level and factors under the first
  condition. The timestamps may differ throughout.
\<close>

theorem same_assessment_iff_same_draw:
  "(criticalPaths cfg = [] \<or> (6 / 10 < shd g1) = (6 / 10 < shd g2) \<longrightarrow>
      riskScore (fst (assess m cfg g1 t1)) = riskScore (fst (assess m cfg g2 t2))
    \<and> riskLevel (fst (assess m cfg g1 t1)) = riskLevel (fst (assess m cfg g2 t2))
    \<and> factors (fst (assess m cfg g1 t1)) = factors (fst (assess m cfg g2 t2)))
 \<and> (criticalPaths cfg \<noteq> [] \<and> (6 / 10 < shd g1) \<noteq> (6 / 10 < shd g2) \<longrightarrow>
      factors (fst (assess m cfg g1 t1)) \<noteq> factors (fst (assess m cfg g2 t2))
    \<and> (isFinite (filesFactor m cfg) \<and> isFinite (linesFactor m cfg) \<longrightarrow>
          riskScore (fst (assess m cfg g1 t1)) \<noteq> riskScore (fst (assess m cfg g2 t2))))
 \<and> (changed_files pr = Some fc \<and> fc \<noteq> 0 \<and> pr_additions pr = Some ad \<and> ad \<noteq> 0
      \<and> pr_deletions pr = Some de \<and> de \<noteq> 0
      \<and> (criticalPaths (getInputs inp) = [] \<or> (6 / 10 < shd g1) = (6 / 10 < shd g2)) \<longrightarrow>
      risk_score (outputs (run inp (Some pr) g1 t1))
        = risk_score (outputs (run inp (Some pr) g2 t2))
    \<and> risk_level (outputs (run inp (Some pr) g1 t1))
        = risk_level (outputs (run inp (Some pr) g2 t2))
    \<and> factors (analysis (outputs (run inp (Some pr) g1 t1)))
        = factors (analysis (outputs (run inp (Some pr) g2 t2))))"
proof (intro conjI impI)
  assume "criticalPaths cfg = [] \<or> (6 / 10 < shd g1) = (6 / 10 < shd g2)"
  then have same: "riskScore (fst (assess m cfg g1 t1)) = riskScore (fst (assess m cfg g2 t2))
       \<and> riskLevel (fst (assess m cfg g1 t1)) = riskLevel (fst (assess m cfg g2 t2))
       \<and> factors (fst (assess m cfg g1 t1)) = factors (fst (assess m cfg g2 t2))"
    by (rule assess_same_draw)
  from same show "riskScore (fst (assess m cfg g1 t1)) = riskScore (fst (assess m cfg g2 t2))"
    by blast
  from same show "riskLevel (fst (assess m cfg g1 t1)) = riskLevel (fst (assess m cfg g2 t2))"
    by blast
  from same show "factors (fst (assess m cfg g1 t1)) = factors (fst (assess m cfg g2 t2))"
    by blast
next
  assume other: "criticalPaths cfg \<noteq> [] \<and> (6 / 10 < shd g1) \<noteq> (6 / 10 < shd g2)"
  then consider "6 / 10 < shd g1" "\<not> 6 / 10 < shd g2" | "6 / 10 < shd g2" "\<not> 6 / 10 < shd g1"
    by blast
  then show "factors (fst (assess m cfg g1 t1)) \<noteq> factors (fst (assess m cfg g2 t2))"
  proof cases
    case 1
    with other show ?thesis using assess_other_draw(1) by blast
  next
    case 2
    with other have "factors (fst (assess m cfg g2 t2)) \<noteq> factors (fst (assess m cfg g1 t1))"
      using assess_other_draw(1) by blast
    then show ?thesis by simp
  qed
next
  assume other: "criticalPaths cfg \<noteq> [] \<and> (6 / 10 < shd g1) \<noteq> (6 / 10 < shd g2)"
    and fin: "isFinite (filesFactor m cfg) \<and> isFinite (linesFactor m cfg)"
  from other consider "6 / 10 < shd g1" "\<not> 6 / 10 < shd g2"
    | "6 / 10 < shd g2" "\<not> 6 / 10 < shd g1"
    by blast
  then show "riskScore (fst (assess m cfg g1 t1)) \<noteq> riskScore (fst (assess m cfg g2 t2))"
  proof cases
    case 1
    with other fin show ?thesis using assess_other_draw(2) by blast
  next
    case 2
    with other fin
    have "riskScore (fst (assess m cfg g2 t2)) \<noteq> riskScore (fst (assess m cfg g1 t1))"
      using assess_other_draw(2) by blast
    then show ?thesis by simp
  qed
next
  assume pres: "changed_files pr = Some fc \<and> fc \<noteq> 0 \<and> pr_additions pr = Some ad \<and> ad \<noteq> 0
      \<and> pr_deletions pr = Some de \<and> de \<noteq> 0
      \<and> (criticalPaths (getInputs inp) = [] \<or> (6 / 10 < shd g1) = (6 / 10 < shd g2))"
  then have whole: "risk_score (outputs (run inp (Some pr) g1 t1))
           = risk_score (outputs (run inp (Some pr) g2 t2))
       \<and> risk_level (outputs (run inp (Some pr) g1 t1))
           = risk_level (outputs (run inp (Some pr) g2 t2))
       \<and> factors (analysis (outputs (run inp (Some pr) g1 t1)))
           = factors (analysis (outputs (run inp (Some pr) g2 t2)))"
    using run_same_draw [of pr fc ad de inp g1 g2 t1 t2] by blast
  from whole show "risk_score (outputs (run inp (Some pr) g1 t1))
      = risk_score (outputs (run inp (Some pr) g2 t2))" by blast
  from whole show "risk_level (outputs (run inp (Some pr) g1 t1))
      = risk_level (outputs (run inp (Some pr) g2 t2))" by blast
  from whole show "factors (analysis (outputs (run inp (Some pr) g1 t1)))
      = factors (analysis (outputs (run inp (Some pr) g2 t2)))" by blast
qed

text \<open>
  One critical path configured throughout. Draws of 0.7 and of 0.9, both above 0.6: the
  same score 30, level and factors, on the metrics and on the whole run. Draws of 0.5 and
  of 0.9: other factors and another score.
\<close>

theorem same_assessment_iff_same_draw_witness:
  "criticalPaths \<lparr>filesThreshold = num 20, linesThreshold = num 500,
      criticalPaths = [''src/payment'']\<rparr> \<noteq> []
   \<and> (6 / 10 < shd (sconst (7 / 10 :: rat))) = (6 / 10 < shd (sconst (9 / 10 :: rat)))
   \<and> riskScore (fst (assess
        \<lparr>filesChanged = 3, additions = 10, deletions = 2, totalLines = 12\<rparr>
        \<lparr>filesThreshold = num 20, linesThreshold = num 500, criticalPaths = [''src/payment'']\<rparr>
        (sconst (7 / 10)) ''t1'')) = Fin 30
   \<and> riskScore (fst (assess
        \<lparr>filesChanged = 3, additions = 10, deletions = 2, totalLines = 12\<rparr>
        \<lparr>filesThreshold = num 20, linesThreshold = num 500, criticalPaths = [''src/payment'']\<rparr>
        (sconst (7 / 10)) ''t1''))
     = riskScore (fst (assess
        \<lparr>filesChanged = 3, additions = 10, deletions = 2, totalLines = 12\<rparr>
        \<lparr>filesThreshold = num 20, linesThreshold = num 500, criticalPaths = [''src/payment'']\<rparr>
        (sconst (9 / 10)) ''t2''))
   \<and> riskLevel (fst (assess
        \<lparr>filesChanged = 3, additions = 10, deletions = 2, totalLines = 12\<rparr>
        \<lparr>filesThreshold = num 20, linesThreshold = num 500, criticalPaths = [''src/payment'']\<rparr>
        (sconst (7 / 10)) ''t1''))
     = riskLevel (fst (assess
        \<lparr>filesChanged = 3, additions = 10, deletions = 2, totalLines = 12\<rparr>
        \<lparr>filesThreshold = num 20, linesThreshold = num 500, criticalPaths = [''src/payment'']\<rparr>
        (sconst (9 / 10)) ''t2''))
   \<and> factors (fst (assess
        \<lparr>filesChanged = 3, additions = 10, deletions = 2, totalLines = 12\<rparr>
        \<lparr>filesThreshold = num 20, linesThreshold = num 500, criticalPaths = [''src/payment'']\<rparr>
        (sconst (7 / 10)) ''t1''))
     = factors (fst (assess
        \<lparr>filesChanged = 3, additions = 10, deletions = 2, totalLines = 12\<rparr>
        \<lparr>filesThreshold = num 20, linesThreshold = num 500, criticalPaths = [''src/payment'']\<rparr>
        (sconst (9 / 10)) ''t2''))
   \<and> risk_score (outputs (run
        \<lparr>files_changed_threshold = ''20'', lines_changed_threshold = ''500'',
         critical_paths = ''src/payment''\<rparr>
        (Some \<lparr>changed_files = Some 3, pr_additions = Some 10, pr_deletions = Some 2\<rparr>)
        (sconst (7 / 10)) ''t1''))
     = risk_score (outputs (run
        \<lparr>files_changed_threshold = ''20'', lines_changed_threshold = ''500'',
         critical_paths = ''src/payment''\<rparr>
        (Some \<lparr>changed_files = Some 3, pr_additions = Some 10, pr_deletions = Some 2\<rparr>)
        (sconst (9 / 10)) ''t2''))
   \<and> (6 / 10 < shd (sconst (1 / 2 :: rat))) \<noteq> (6 / 10 < shd (sconst (9 / 10 :: rat)))
   \<and> factors (fst (assess
        \<lparr>filesChanged = 3, additions = 10, deletions = 2, totalLines = 12\<rparr>
        \<lparr>filesThreshold = num 20, linesThreshold = num 500, criticalPaths = [''src/payment'']\<rparr>
        (sconst (1 / 2)) ''t1''))
     \<noteq> factors (fst (assess
        \<lparr>filesChanged = 3, additions = 10, deletions = 2, totalLines = 12\<rparr>
        \<lparr>filesThreshold = num 20, linesThreshold = num 500, criticalPaths = [''src/payment'']\<rparr>
        (sconst (9 / 10)) ''t2''))
   \<and> riskScore (fst (assess
        \<lparr>filesChanged = 3, additions = 10, deletions = 2, totalLines = 12\<rparr>
        \<lparr>filesThreshold = num 20, linesThreshold = num 500, criticalPaths = [''src/payment'']\<rparr>
        (sconst (1 / 2)) ''t1''))
     \<noteq> riskScore (fst (assess
        \<lparr>filesChanged = 3, additions = 10, deletions = 2, totalLines = 12\<rparr>
        \<lparr>filesThreshold = num 20, linesThreshold = num 500, criticalPaths = [''src/payment'']\<rparr>
        (sconst (9 / 10)) ''t2''))"
proof -
  let ?m = "\<lparr>filesChanged = 3, additions = 10, deletions = 2, totalLines = 12\<rparr>"
  let ?cfg = "\<lparr>filesThreshold = num 20, linesThreshold = num 500,
      criticalPaths = [''src/payment'']\<rparr>"
  let ?inp = "\<lparr>files_changed_threshold = ''20'', lines_changed_threshold = ''500'',
         critical_paths = ''src/payment''\<rparr>"
  let ?pr = "\<lparr>changed_files = Some 3, pr_additions = Some 10, pr_deletions = Some 2\<rparr>"
  have cp: "criticalPaths ?cfg \<noteq> []" by simp
  have same: "(6 / 10 < shd (sconst (7 / 10 :: rat))) = (6 / 10 < shd (sconst (9 / 10 :: rat)))"
    by simp
  have other: "(6 / 10 < shd (sconst (1 / 2 :: rat))) \<noteq> (6 / 10 < shd (sconst (9 / 10 :: rat)))"
    by simp
  have fin: "isFinite (filesFactor ?m ?cfg) \<and> isFinite (linesFactor ?m ?cfg)"
    by (simp add: filesFactor_def linesFactor_def isFinite_def num_defs)
  have cfg: "getInputs ?inp = ?cfg" by (simp add: input_defs)
  have pres: "changed_files ?pr = Some 3 \<and> (3::int) \<noteq> 0 \<and> pr_additions ?pr = Some 10
      \<and> (10::int) \<noteq> 0 \<and> pr_deletions ?pr = Some 2 \<and> (2::int) \<noteq> 0
      \<and> (criticalPaths (getInputs ?inp) = []
          \<or> (6 / 10 < shd (sconst (7 / 10 :: rat))) = (6 / 10 < shd (sconst (9 / 10 :: rat))))"
    using same by simp
  have v: "riskScore (fst (assess ?m ?cfg (sconst (7 / 10)) ''t1'')) = Fin 30"
    by (simp add: engine_defs factor_defs num_defs)
  note a = same_assessment_iff_same_draw [where cfg = ?cfg and ?g1.0 = "sconst (7 / 10)"
      and ?g2.0 = "sconst (9 / 10)" and m = ?m and ?t1.0 = "''t1''" and ?t2.0 = "''t2''"
      and pr = ?pr and fc = 3 and ad = 10 and de = 2 and inp = ?inp]
  note b = same_assessment_iff_same_draw [where cfg = ?cfg and ?g1.0 = "sconst (1 / 2)"
      and ?g2.0 = "sconst (9 / 10)" and m = ?m and ?t1.0 = "''t1''" and ?t2.0 = "''t2''"]
  have a1: "riskScore (fst (assess ?m ?cfg (sconst (7 / 10)) ''t1''))
        = riskScore (fst (assess ?m ?cfg (sconst (9 / 10)) ''t2''))
      \<and> riskLevel (fst (assess ?m ?cfg (sconst (7 / 10)) ''t1''))
        = riskLevel (fst (assess ?m ?cfg (sconst (9 / 10)) ''t2''))
      \<and> factors (fst (assess ?m ?cfg (sconst (7 / 10)) ''t1''))
        = factors (fst (assess ?m ?cfg (sconst (9 / 10)) ''t2''))"
    using a same by blast
  have a2: "risk_score (outputs (run ?inp (Some ?pr) (sconst (7 / 10)) ''t1''))
        = risk_score (outputs (run ?inp (Some ?pr) (sconst (9 / 10)) ''t2''))"
    using a pres by blast
  have b1: "factors (fst (assess ?m ?cfg (sconst (1 / 2)) ''t1''))
        \<noteq> factors (fst (assess ?m ?cfg (sconst (9 / 10)) ''t2''))
      \<and> riskScore (fst (assess ?m ?cfg (sconst (1 / 2)) ''t1''))
        \<noteq> riskScore (fst (assess ?m ?cfg (sconst (9 / 10)) ''t2''))"
    using b cp other fin by blast
  from cp same v a1 a2 other b1 show ?thesis by blast
qed

subsection \<open>C5: the deletion ratio factor\<close>

text \<open>
  Claim C5. For metrics with non-negative additions, the denominator
  \<open>additions + 1\<close> is positive, so that the ratio is the finite number
  \<open>deletions / (additions + 1)\<close>. The High Deletion Ratio factor is in the list exactly
  when this ratio is above one half; it then carries the score 10 and the impact medium
  and adds 10 to the sum. Otherwise it is not in the list and adds nothing.
\<close>

theorem deletion_ratio_dimension:
  assumes "0 \<le> additions m"
  shows "0 < additions m + 1
    \<and> deletionRatio m = Fin (of_int (deletions m) / (of_int (additions m) + 1))
    \<and> filter (\<lambda>f. name f = ''High Deletion Ratio'') (factors (fst (assess m cfg g now)))
        = (if 1 / 2 < (of_int (deletions m) / (of_int (additions m) + 1) :: rat)
           then [deletionEntry m] else [])
    \<and> score (deletionEntry m) = Fin 10 \<and> impact (deletionEntry m) = ''medium''
    \<and> fst (fst (riskFactors m cfg g))
        = js_add (js_add (js_add (filesFactor m cfg) (linesFactor m cfg))
                    (if fst (touchesCritical (criticalPaths cfg) g) then Fin 25 else Fin 0))
            (if 1 / 2 < (of_int (deletions m) / (of_int (additions m) + 1) :: rat)
             then Fin 10 else Fin 0)"
proof -
  have pos: "(0::rat) < of_int (additions m) + 1"
    using assms by (simp add: add_nonneg_pos)
  have ratio: "deletionRatio m = Fin (of_int (deletions m) / (of_int (additions m) + 1))"
    using pos by (simp add: deletionRatio_def num_def)
  have gt: "js_gt (deletionRatio m) (Fin (1 / 2))
      = (1 / 2 < (of_int (deletions m) / (of_int (additions m) + 1) :: rat))"
    by (simp add: ratio js_gt_def)
  have entry: "score (deletionEntry m) = Fin 10 \<and> impact (deletionEntry m) = ''medium''"
    by (simp add: deletionEntry_def)
  have fs: "filter (\<lambda>f. name f = ''High Deletion Ratio'') (factors (fst (assess m cfg g now)))
        = (if 1 / 2 < (of_int (deletions m) / (of_int (additions m) + 1) :: rat)
           then [deletionEntry m] else [])"
    by (simp add: assess_factors riskFactors_factors gt)
  have raw: "fst (fst (riskFactors m cfg g))
        = js_add (js_add (js_add (filesFactor m cfg) (linesFactor m cfg))
                    (if fst (touchesCritical (criticalPaths cfg) g) then Fin 25 else Fin 0))
            (if 1 / 2 < (of_int (deletions m) / (of_int (additions m) + 1) :: rat)
             then Fin 10 else Fin 0)"
    by (simp only: riskFactors_raw gt)
  from assms have "0 < additions m + 1" by simp
  with ratio fs entry raw show ?thesis by blast
qed

text \<open>
  400 deletions against 10 additions: the factor is recorded. No addition and no deletion:
  the ratio is 0 and the factor is not recorded.
\<close>

theorem deletion_ratio_dimension_witness:
  "0 \<le> additions \<lparr>filesChanged = 3, additions = 10, deletions = 400, totalLines = 410\<rparr>
   \<and> filter (\<lambda>f. name f = ''High Deletion Ratio'') (factors (fst (assess
        \<lparr>filesChanged = 3, additions = 10, deletions = 400, totalLines = 410\<rparr>
        \<lparr>filesThreshold = num 20, linesThreshold = num 500, criticalPaths = []\<rparr>
        (sconst (1 / 2)) ''t'')))
      = [\<lparr>name = ''High Deletion Ratio'', fvalue = Str ''3636%'', threshold = Str ''50%'',
          score = Fin 10, impact = ''medium''\<rparr>]
   \<and> 0 \<le> additions \<lparr>filesChanged = 3, additions = 0, deletions = 0, totalLines = 0\<rparr>
   \<and> deletionRatio \<lparr>filesChanged = 3, additions = 0, deletions = 0, totalLines = 0\<rparr> = Fin 0
   \<and> filter (\<lambda>f. name f = ''High Deletion Ratio'') (factors (fst (assess
        \<lparr>filesChanged = 3, additions = 0, deletions = 0, totalLines = 0\<rparr>
        \<lparr>filesThreshold = num 20, linesThreshold = num 500, criticalPaths = []\<rparr>
        (sconst (1 / 2)) ''t''))) = []"
proof -
  let ?m = "\<lparr>filesChanged = 3, additions = 10, deletions = 400, totalLines = 410\<rparr>"
  let ?z = "\<lparr>filesChanged = 3, additions = 0, deletions = 0, totalLines = 0\<rparr>"
  let ?cfg = "\<lparr>filesThreshold = num 20, linesThreshold = num 500, criticalPaths = []\<rparr>"
  have h1: "0 \<le> additions ?m" and h2: "0 \<le> additions ?z" by simp_all
  have e: "deletionEntry ?m
      = \<lparr>name = ''High Deletion Ratio'', fvalue = Str ''3636%'', threshold = Str ''50%'',
          score = Fin 10, impact = ''medium''\<rparr>"
    by (simp add: deletionEntry_def deletionRatio_def num_def print_defs)
  have a: "filter (\<lambda>f. name f = ''High Deletion Ratio'')
      (factors (fst (assess ?m ?cfg (sconst (1 / 2)) ''t''))) = [deletionEntry ?m]"
    using deletion_ratio_dimension [OF h1, of ?cfg "sconst (1 / 2)" "''t''"] by simp
  have b: "deletionRatio ?z = Fin 0"
    using deletion_ratio_dimension [OF h2] by simp
  have c: "filter (\<lambda>f. name f = ''High Deletion Ratio'')
      (factors (fst (assess ?z ?cfg (sconst (1 / 2)) ''t''))) = []"
    using deletion_ratio_dimension [OF h2, of ?cfg "sconst (1 / 2)" "''t''"] by simp
  show ?thesis using h1 h2 a b c unfolding e by blast
qed

subsection \<open>C6: the fallback of the pull request statistics\<close>

text \<open>
  Claim C6. The claim has the three counts used unchanged when all three are present.
  Here all three are present, in a pull request that changes 3 files, adds 10 lines and
  deletes none: the operator \<^verbatim>\<open>||\<close> of line 146 takes the \<open>0\<close> for a missing
  value, and with a draw of 0.5 the deletions become 120 and the total 130. (The two
  other parts of the claim hold: \<open>prStats_absent\<close> and \<open>prStats_totalLines\<close>.)
\<close>

theorem zero_deletions_replaced:
  "prStats (Some \<lparr>changed_files = Some 3, pr_additions = Some 10, pr_deletions = Some 0\<rparr>)
      (sconst (1 / 2))
     = (\<lparr>filesChanged = 3, additions = 10, deletions = 120, totalLines = 130\<rparr>, sconst (1 / 2))"
  by (simp add: prStats_def orRandom_def optChain_def Math_random_def)

subsection \<open>C7: the level is monotonic in the score\<close>

text \<open>
  Claim C7. The level is a function of the score, defined for every score, and monotonic:
  when the score of an input A is at least the score of an input B, the level of A is at
  least the level of B in the order low, medium, high, critical.
\<close>

theorem level_monotone:
  assumes "js_ge (riskScore (fst (assess mA cfgA gA tA))) (riskScore (fst (assess mB cfgB gB tB)))"
  shows "levelRank (riskLevel (fst (assess mB cfgB gB tB)))
           \<le> levelRank (riskLevel (fst (assess mA cfgA gA tA)))
       \<and> riskLevel (fst (assess mA cfgA gA tA))
           = fst (levelOf (riskScore (fst (assess mA cfgA gA tA))))
       \<and> riskLevel (fst (assess mA cfgA gA tA)) \<in> {''low'', ''medium'', ''high'', ''critical''}"
  using assms levelOf_mono levelOf_total by (simp add: assess_level)

text \<open>An input of score 100 against an input of score 30.\<close>

theorem level_monotone_witness:
  "js_ge (riskScore (fst (assess
       \<lparr>filesChanged = 20, additions = 10, deletions = 490, totalLines = 500\<rparr>
       \<lparr>filesThreshold = num 20, linesThreshold = num 500, criticalPaths = [''src/payment'']\<rparr>
       (sconst (9 / 10)) ''t1'')))
     (riskScore (fst (assess
       \<lparr>filesChanged = 20, additions = 0, deletions = 0, totalLines = 0\<rparr>
       \<lparr>filesThreshold = num 20, linesThreshold = num 500, criticalPaths = []\<rparr>
       (sconst (1 / 2)) ''t2'')))
   \<and> levelRank (riskLevel (fst (assess
       \<lparr>filesChanged = 20, additions = 0, deletions = 0, totalLines = 0\<rparr>
       \<lparr>filesThreshold = num 20, linesThreshold = num 500, criticalPaths = []\<rparr>
       (sconst (1 / 2)) ''t2'')))
     \<le> levelRank (riskLevel (fst (assess
       \<lparr>filesChanged = 20, additions = 10, deletions = 490, totalLines = 500\<rparr>
       \<lparr>filesThreshold = num 20, linesThreshold = num 500, criticalPaths = [''src/payment'']\<rparr>
       (sconst (9 / 10)) ''t1'')))"
proof -
  let ?A = "fst (assess
       \<lparr>filesChanged = 20, additions = 10, deletions = 490, totalLines = 500\<rparr>
       \<lparr>filesThreshold = num 20, linesThreshold = num 500, criticalPaths = [''src/payment'']\<rparr>
       (sconst (9 / 10)) ''t1'')"
  let ?B = "fst (assess
       \<lparr>filesChanged = 20, additions = 0, deletions = 0, totalLines = 0\<rparr>
       \<lparr>filesThreshold = num 20, linesThreshold = num 500, criticalPaths = []\<rparr>
       (sconst (1 / 2)) ''t2'')"
  have h: "js_ge (riskScore ?A) (riskScore ?B)"
    by (simp add: engine_defs factor_defs num_defs)
  from level_monotone [OF h] h show ?thesis by blast
qed

subsection \<open>C8: thresholds that are not positive\<close>




subsection \<open>C9: the scenario of 40 files and 600 additions\<close>

text \<open>
  Claim C9. With 40 files changed, 600 additions and no deletion, thresholds 20 and 500
  and no critical path, the files contribution is capped at 30, the lines contribution is
  capped at 35, no deletion ratio factor is recorded, the sum is 65, and the result is the
  score 65 with the level high. The same outputs come out of the whole run when the
  scenario is the pull request payload, for every generator.
\<close>

theorem boundary_scenario:
  "filesFactor \<lparr>filesChanged = 40, additions = 600, deletions = 0, totalLines = 600\<rparr>
      \<lparr>filesThreshold = num 20, linesThreshold = num 500, criticalPaths = []\<rparr> = Fin 30
   \<and> linesFactor \<lparr>filesChanged = 40, additions = 600, deletions = 0, totalLines = 600\<rparr>
      \<lparr>filesThreshold = num 20, linesThreshold = num 500, criticalPaths = []\<rparr> = Fin 35
   \<and> map name (factors (fst (assess
        \<lparr>filesChanged = 40, additions = 600, deletions = 0, totalLines = 600\<rparr>
        \<lparr>filesThreshold = num 20, linesThreshold = num 500, criticalPaths = []\<rparr> g now)))
      = [''Files Changed'', ''Lines Changed'', ''Critical Paths'']
   \<and> fst (fst (riskFactors
        \<lparr>filesChanged = 40, additions = 600, deletions = 0, totalLines = 600\<rparr>
        \<lparr>filesThreshold = num 20, linesThreshold = num 500, criticalPaths = []\<rparr> g)) = Fin 65
   \<and> riskScore (fst (assess
        \<lparr>filesChanged = 40, additions = 600, deletions = 0, totalLines = 600\<rparr>
        \<lparr>filesThreshold = num 20, linesThreshold = num 500, criticalPaths = []\<rparr> g now))
      = Fin 65
   \<and> riskLevel (fst (assess
        \<lparr>filesChanged = 40, additions = 600, deletions = 0, totalLines = 600\<rparr>
        \<lparr>filesThreshold = num 20, linesThreshold = num 500, criticalPaths = []\<rparr> g now))
      = ''high''
   \<and> (unitDraws g0 \<longrightarrow>
        risk_score (outputs (run
          \<lparr>files_changed_threshold = ''20'', lines_changed_threshold = ''500'',
           critical_paths = ''''\<rparr>
          (Some \<lparr>changed_files = Some 40, pr_additions = Some 600, pr_deletions = Some 0\<rparr>)
          g0 now)) = ''65''
      \<and> risk_level (outputs (run
          \<lparr>files_changed_threshold = ''20'', lines_changed_threshold = ''500'',
           critical_paths = ''''\<rparr>
          (Some \<lparr>changed_files = Some 40, pr_additions = Some 600, pr_deletions = Some 0\<rparr>)
          g0 now)) = ''high'')"
proof -
  let ?m = "\<lparr>filesChanged = 40, additions = 600, deletions = 0, totalLines = 600\<rparr>"
  let ?cfg = "\<lparr>filesThreshold = num 20, linesThreshold = num 500, criticalPaths = []\<rparr>"
  have engine: "filesFactor ?m ?cfg = Fin 30 \<and> linesFactor ?m ?cfg = Fin 35
      \<and> map name (factors (fst (assess ?m ?cfg g now)))
          = [''Files Changed'', ''Lines Changed'', ''Critical Paths'']
      \<and> fst (fst (riskFactors ?m ?cfg g)) = Fin 65
      \<and> riskScore (fst (assess ?m ?cfg g now)) = Fin 65
      \<and> riskLevel (fst (assess ?m ?cfg g now)) = ''high''"
    by (simp add: engine_defs factor_defs num_defs)
  show ?thesis
    using engine scenario_run [of g0 now] by blast
qed

text \<open>The whole run on the payload of the scenario, every draw being 0.5.\<close>

theorem boundary_scenario_witness:
  "unitDraws (sconst (1 / 2))
   \<and> risk_score (outputs (run
        \<lparr>files_changed_threshold = ''20'', lines_changed_threshold = ''500'',
         critical_paths = ''''\<rparr>
        (Some \<lparr>changed_files = Some 40, pr_additions = Some 600, pr_deletions = Some 0\<rparr>)
        (sconst (1 / 2)) ''t'')) = ''65''
   \<and> risk_level (outputs (run
        \<lparr>files_changed_threshold = ''20'', lines_changed_threshold = ''500'',
         critical_paths = ''''\<rparr>
        (Some \<lparr>changed_files = Some 40, pr_additions = Some 600, pr_deletions = Some 0\<rparr>)
        (sconst (1 / 2)) ''t'')) = ''high''"
proof -
  have u: "unitDraws (sconst (1 / 2))"
    by (simp add: unitDraws_def)
  from boundary_scenario [of "sconst (1 / 2)" "''t''" "sconst (1 / 2)"] u
  show ?thesis by blast
qed

subsection \<open>C10: a threshold that is not a number\<close>

text \<open>
  Claim C10. When the input of a threshold does not parse (\<^verbatim>\<open>parseInt\<close> gives
  \<^verbatim>\<open>NaN\<close>, as for an empty or a non-numeric input), the run raises no error: the
  contribution divided by that threshold is \<^verbatim>\<open>NaN\<close> (the files contribution for the
  files threshold, the lines contribution for the lines threshold), the final score is
  \<^verbatim>\<open>NaN\<close>, the output \<^verbatim>\<open>risk-score\<close> is the string \<^verbatim>\<open>NaN\<close>, and the level falls
  through to low with the recommendation \<^verbatim>\<open>Safe to deploy anytime\<close>.
\<close>

theorem nan_threshold_lowest_level:
  assumes "parseInt (files_changed_threshold inp) = NaN
         \<or> parseInt (lines_changed_threshold inp) = NaN"
  shows "isCompleted (run inp prContext g now)
   \<and> (parseInt (files_changed_threshold inp) = NaN \<longrightarrow>
        filesFactor (metrics (analysis (outputs (run inp prContext g now)))) (getInputs inp) = NaN)
   \<and> (parseInt (lines_changed_threshold inp) = NaN \<longrightarrow>
        linesFactor (metrics (analysis (outputs (run inp prContext g now)))) (getInputs inp) = NaN)
   \<and> riskScore (analysis (outputs (run inp prContext g now))) = NaN
   \<and> risk_score (outputs (run inp prContext g now)) = ''NaN''
   \<and> risk_level (outputs (run inp prContext g now)) = ''low''
   \<and> recommendation_out (outputs (run inp prContext g now)) = ''Safe to deploy anytime''"
proof -
  let ?m = "fst (prStats prContext g)"
  let ?cfg = "getInputs inp"
  have ff: "parseInt (files_changed_threshold inp) = NaN \<Longrightarrow> filesFactor m ?cfg = NaN" for m
    by (simp add: filesFactor_def getInputs_def)
  have lf: "parseInt (lines_changed_threshold inp) = NaN \<Longrightarrow> linesFactor m ?cfg = NaN" for m
    by (simp add: linesFactor_def getInputs_def)
  have "filesFactor ?m ?cfg = NaN \<or> linesFactor ?m ?cfg = NaN"
    using assms ff lf by blast
  then have raw: "fst (fst (riskFactors ?m ?cfg (snd (prStats prContext g)))) = NaN"
    unfolding riskFactors_raw by (rule js_add_eq_NaN)
  have sc: "riskScore (analysis (outputs (run inp prContext g now))) = NaN"
    by (simp add: run_analysis assess_riskScore raw capScore_def)
  have lv: "levelOf NaN = (''low'', ''Safe to deploy anytime'', ''Standard review process'')"
    by (simp add: levelOf_def js_ge_def)
  have an: "riskLevel (analysis (outputs (run inp prContext g now))) = ''low''"
    "recommendation (analysis (outputs (run inp prContext g now))) = ''Safe to deploy anytime''"
    using sc lv by (simp_all add: run_analysis assess_level)
  show ?thesis
    using ff lf sc an by (simp add: run_outputs run_analysis assess_metrics)
qed

text \<open>
  An empty files threshold without a pull request, and the lines threshold
  \<^verbatim>\<open>abc\<close> on a pull request whose counts would otherwise reach the level critical.
\<close>

theorem nan_threshold_lowest_level_witness:
  "parseInt '''' = NaN \<and> parseInt ''abc'' = NaN
   \<and> risk_score (outputs (run
        \<lparr>files_changed_threshold = '''', lines_changed_threshold = ''500'',
         critical_paths = ''src/payment''\<rparr> None (sconst (9 / 10)) ''t'')) = ''NaN''
   \<and> risk_level (outputs (run
        \<lparr>files_changed_threshold = '''', lines_changed_threshold = ''500'',
         critical_paths = ''src/payment''\<rparr> None (sconst (9 / 10)) ''t'')) = ''low''
   \<and> risk_level (outputs (run
        \<lparr>files_changed_threshold = ''20'', lines_changed_threshold = ''abc'',
         critical_paths = ''''\<rparr>
        (Some \<lparr>changed_files = Some 40, pr_additions = Some 600, pr_deletions = Some 500\<rparr>)
        (sconst (9 / 10)) ''t'')) = ''low''"
proof -
  let ?i1 = "\<lparr>files_changed_threshold = '''', lines_changed_threshold = ''500'',
         critical_paths = ''src/payment''\<rparr>"
  let ?i2 = "\<lparr>files_changed_threshold = ''20'', lines_changed_threshold = ''abc'',
         critical_paths = ''''\<rparr>"
  have p1: "parseInt '''' = NaN" and p2: "parseInt ''abc'' = NaN"
    by (simp_all add: parseInt_def isSpace_def isDigit_def)
  have h1: "parseInt (files_changed_threshold ?i1) = NaN
      \<or> parseInt (lines_changed_threshold ?i1) = NaN" using p1 by simp
  have h2: "parseInt (files_changed_threshold ?i2) = NaN
      \<or> parseInt (lines_changed_threshold ?i2) = NaN" using p2 by simp
  from nan_threshold_lowest_level [OF h1] nan_threshold_lowest_level [OF h2] p1 p2
  show ?thesis by blast
qed

end
